theory Spec2Isabelle
  imports Main
begin

section \<open>The stock-price dashboard page (the script under pages)\<close>

text \<open>
  The page is one script that the UI framework executes from top to bottom on every
  interaction: it binds the company dictionary, prints a title, shows a multi-select,
  and, when something is selected, downloads one price table per selected company and
  plots the closing prices in one figure.

  The embedding follows the script line by line.
  \<^item> Python strings are modelled as \<open>string\<close>; a non-ASCII literal of the script is the
    list of the bytes of its UTF-8 encoding (concatenation of strings is concatenation
    of the encodings, which is all the script does with them).
  \<^item> A \<open>datetime\<close> is the number of microseconds since 0001-01-01 00:00:00 (Python's
    \<open>datetime.min\<close>), a \<open>timedelta\<close> a number of microseconds.
  \<^item> The data provider (\<open>yf.download\<close>) is a parameter of the script: a function from
    the request to either a raised exception or a table.
  \<^item> What the script does to the outside is recorded in a session state: the elements
    written to the page, in order, and the download requests issued, in order.
  \<^item> An exception is a value: every step returns \<open>Some err\<close> when it raised, together
    with the state reached at that moment.
\<close>

subsection \<open>Values\<close>

type_synonym datetime = int
type_synonym timedelta = int

datatype error = KeyError string | OverflowError | ProviderFault string

text \<open>A pandas table as the script reads it: the index and the named columns.\<close>

record 'p dataframe =
  df_index :: "datetime list"
  df_columns :: "(string \<times> 'p list) list"

text \<open>A \<open>go.Scatter\<close> trace with the four properties the script sets.\<close>

record 'p scatter =
  sc_x :: "datetime list"
  sc_y :: "'p list"
  sc_mode :: string
  sc_name :: string

record layout =
  lo_title :: "string option"
  lo_xaxis_title :: "string option"
  lo_yaxis_title :: "string option"
  lo_hovermode :: "string option"
  lo_template :: "string option"

record 'p figure =
  fig_data :: "'p scatter list"
  fig_layout :: layout

text \<open>The elements a pass writes to the page.\<close>

datatype 'p element =
    Title string
  | Multiselect string "string list" "string list"
  | Warning string
  | Info string
  | PlotlyChart "'p figure" bool

text \<open>
  The session state of one pass: the module variable \<open>top10_companies\<close> (field
  \<open>companies\<close>), the page written so far and the download requests issued so far.
\<close>

record 'p session =
  companies :: "(string \<times> string) list"
  page :: "'p element list"
  requests :: "(string \<times> datetime \<times> datetime) list"

type_synonym 'p download = "string \<Rightarrow> datetime \<Rightarrow> datetime \<Rightarrow> error + 'p dataframe"

subsection \<open>The literals of the script\<close>

text \<open>Lines 8 to 19: the dictionary literal, in insertion order.\<close>

definition top10_companies :: "(string \<times> string) list" where
  "top10_companies =
     [(''Apple (AAPL)'', ''AAPL''),
      (''Microsoft (MSFT)'', ''MSFT''),
      (''Alphabet (GOOGL)'', ''GOOGL''),
      (''Amazon (AMZN)'', ''AMZN''),
      (''NVIDIA (NVDA)'', ''NVDA''),
      (''Meta (META)'', ''META''),
      (''Berkshire Hathaway (BRK-B)'', ''BRK-B''),
      (''Eli Lilly (LLY)'', ''LLY''),
      (''Visa (V)'', ''V''),
      (''TSMC (TSM)'', ''TSM'')]"

text \<open>
  Line 22, the page title: U+1F4CA, a space, U+C2DC U+AC00 U+CD1D U+C561, \<open>Top 10\<close>,
  U+AE30 U+C5C5, a dash, U+CD5C U+ADFC, \<open>3\<close> U+B144, U+C8FC U+AC00,
  \<open>(Plotly\<close> U+ADF8 U+B798 U+D504\<open>)\<close>.
\<close>

definition page_title :: string where
  "page_title =
     [CHR 0xF0, CHR 0x9F, CHR 0x93, CHR 0x8A, CHR 0x20, CHR 0xEC, CHR 0x8B, CHR 0x9C,
      CHR 0xEA, CHR 0xB0, CHR 0x80, CHR 0xEC, CHR 0xB4, CHR 0x9D, CHR 0xEC, CHR 0x95,
      CHR 0xA1, CHR 0x20, CHR 0x54, CHR 0x6F, CHR 0x70, CHR 0x20, CHR 0x31, CHR 0x30,
      CHR 0x20, CHR 0xEA, CHR 0xB8, CHR 0xB0, CHR 0xEC, CHR 0x97, CHR 0x85, CHR 0x20,
      CHR 0x2D, CHR 0x20, CHR 0xEC, CHR 0xB5, CHR 0x9C, CHR 0xEA, CHR 0xB7, CHR 0xBC,
      CHR 0x20, CHR 0x33, CHR 0xEB, CHR 0x85, CHR 0x84, CHR 0x20, CHR 0xEC, CHR 0xA3,
      CHR 0xBC, CHR 0xEA, CHR 0xB0, CHR 0x80, CHR 0x20, CHR 0x28, CHR 0x50, CHR 0x6C,
      CHR 0x6F, CHR 0x74, CHR 0x6C, CHR 0x79, CHR 0x20, CHR 0xEA, CHR 0xB7, CHR 0xB8,
      CHR 0xEB, CHR 0x9E, CHR 0x98, CHR 0xED, CHR 0x94, CHR 0x84, CHR 0x29]"

text \<open>
  Line 24, the label of the multi-select: U+AE30 U+C5C5 U+C744, U+C120 U+D0DD U+D558
  U+C138 U+C694, \<open>(\<close>U+BCF5 U+C218, U+C120 U+D0DD, U+AC00 U+B2A5\<open>)\<close>
  ("choose companies (several may be chosen)").
\<close>

definition multiselect_label :: string where
  "multiselect_label =
     [CHR 0xEA, CHR 0xB8, CHR 0xB0, CHR 0xEC, CHR 0x97, CHR 0x85, CHR 0xEC, CHR 0x9D,
      CHR 0x84, CHR 0x20, CHR 0xEC, CHR 0x84, CHR 0xA0, CHR 0xED, CHR 0x83, CHR 0x9D,
      CHR 0xED, CHR 0x95, CHR 0x98, CHR 0xEC, CHR 0x84, CHR 0xB8, CHR 0xEC, CHR 0x9A,
      CHR 0x94, CHR 0x20, CHR 0x28, CHR 0xEB, CHR 0xB3, CHR 0xB5, CHR 0xEC, CHR 0x88,
      CHR 0x98, CHR 0x20, CHR 0xEC, CHR 0x84, CHR 0xA0, CHR 0xED, CHR 0x83, CHR 0x9D,
      CHR 0x20, CHR 0xEA, CHR 0xB0, CHR 0x80, CHR 0xEB, CHR 0x8A, CHR 0xA5, CHR 0x29]"

text \<open>Line 24, the \<open>default=\<close> argument of the multi-select.\<close>

definition multiselect_default :: "string list" where
  "multiselect_default = [''Apple (AAPL)'', ''Microsoft (MSFT)'']"

text \<open>
  Line 45, the text of the f-string after \<open>{name}\<close>: U+C758, U+B370 U+C774 U+D130
  U+B97C, U+BD88 U+B7EC U+C62C, U+C218, U+C5C6 U+C2B5 U+B2C8 U+B2E4 and a full stop
  ("...'s data could not be loaded.").
\<close>

definition warning_suffix :: string where
  "warning_suffix =
     [CHR 0xEC, CHR 0x9D, CHR 0x98, CHR 0x20, CHR 0xEB, CHR 0x8D, CHR 0xB0, CHR 0xEC,
      CHR 0x9D, CHR 0xB4, CHR 0xED, CHR 0x84, CHR 0xB0, CHR 0xEB, CHR 0xA5, CHR 0xBC,
      CHR 0x20, CHR 0xEB, CHR 0xB6, CHR 0x88, CHR 0xEB, CHR 0x9F, CHR 0xAC, CHR 0xEC,
      CHR 0x98, CHR 0xAC, CHR 0x20, CHR 0xEC, CHR 0x88, CHR 0x98, CHR 0x20, CHR 0xEC,
      CHR 0x97, CHR 0x86, CHR 0xEC, CHR 0x8A, CHR 0xB5, CHR 0xEB, CHR 0x8B, CHR 0x88,
      CHR 0xEB, CHR 0x8B, CHR 0xA4, CHR 0x2E]"

text \<open>
  Line 49, the title of the chart: U+CD5C U+ADFC, \<open>3\<close> U+B144 U+AC04, U+C8FC U+AC00,
  U+BE44 U+AD50, \<open>(\<close>U+C885 U+AC00, U+AE30 U+C900\<open>)\<close>
  ("price comparison over the last 3 years (by closing price)").
\<close>

definition chart_title :: string where
  "chart_title =
     [CHR 0xEC, CHR 0xB5, CHR 0x9C, CHR 0xEA, CHR 0xB7, CHR 0xBC, CHR 0x20, CHR 0x33,
      CHR 0xEB, CHR 0x85, CHR 0x84, CHR 0xEA, CHR 0xB0, CHR 0x84, CHR 0x20, CHR 0xEC,
      CHR 0xA3, CHR 0xBC, CHR 0xEA, CHR 0xB0, CHR 0x80, CHR 0x20, CHR 0xEB, CHR 0xB9,
      CHR 0x84, CHR 0xEA, CHR 0xB5, CHR 0x90, CHR 0x20, CHR 0x28, CHR 0xEC, CHR 0xA2,
      CHR 0x85, CHR 0xEA, CHR 0xB0, CHR 0x80, CHR 0x20, CHR 0xEA, CHR 0xB8, CHR 0xB0,
      CHR 0xEC, CHR 0xA4, CHR 0x80, CHR 0x29]"

text \<open>Line 50, the title of the x axis: U+B0A0 U+C9DC ("date").\<close>

definition chart_xaxis_title :: string where
  "chart_xaxis_title = [CHR 0xEB, CHR 0x82, CHR 0xA0, CHR 0xEC, CHR 0xA7, CHR 0x9C]"

text \<open>Line 51, the title of the y axis: U+C8FC U+AC00 \<open>($)\<close> ("price ($)").\<close>

definition chart_yaxis_title :: string where
  "chart_yaxis_title =
     [CHR 0xEC, CHR 0xA3, CHR 0xBC, CHR 0xEA, CHR 0xB0, CHR 0x80, CHR 0x20, CHR 0x28,
      CHR 0x24, CHR 0x29]"

text \<open>
  Line 58, the prompt: U+AE30 U+C5C5 U+C744, U+D558 U+B098, U+C774 U+C0C1, U+C120
  U+D0DD U+D574 U+C8FC U+C138 U+C694 and a full stop
  ("please choose at least one company.").
\<close>

definition info_text :: string where
  "info_text =
     [CHR 0xEA, CHR 0xB8, CHR 0xB0, CHR 0xEC, CHR 0x97, CHR 0x85, CHR 0xEC, CHR 0x9D,
      CHR 0x84, CHR 0x20, CHR 0xED, CHR 0x95, CHR 0x98, CHR 0xEB, CHR 0x82, CHR 0x98,
      CHR 0x20, CHR 0xEC, CHR 0x9D, CHR 0xB4, CHR 0xEC, CHR 0x83, CHR 0x81, CHR 0x20,
      CHR 0xEC, CHR 0x84, CHR 0xA0, CHR 0xED, CHR 0x83, CHR 0x9D, CHR 0xED, CHR 0x95,
      CHR 0xB4, CHR 0xEC, CHR 0xA3, CHR 0xBC, CHR 0xEC, CHR 0x84, CHR 0xB8, CHR 0xEC,
      CHR 0x9A, CHR 0x94, CHR 0x2E]"

subsection \<open>The library operations the script calls\<close>

text \<open>\<open>d[key]\<close> on a dictionary: the value, or \<open>KeyError\<close>.\<close>

definition dict_getitem :: "(string \<times> 'v) list \<Rightarrow> string \<Rightarrow> error + 'v" where
  "dict_getitem d key = (case map_of d key of None \<Rightarrow> Inl (KeyError key) | Some v \<Rightarrow> Inr v)"

text \<open>\<open>list(d.keys())\<close>: the keys in insertion order.\<close>

definition dict_keys :: "(string \<times> 'v) list \<Rightarrow> string list" where
  "dict_keys d = map fst d"

text \<open>\<open>timedelta(days=n)\<close>, in microseconds.\<close>

definition timedelta :: "int \<Rightarrow> timedelta" where
  "timedelta days = days * 86400000000"

text \<open>\<open>datetime.max\<close>, 9999-12-31 23:59:59.999999, day 3652059 of the calendar.\<close>

definition datetime_max :: datetime where
  "datetime_max = 3652059 * 86400000000 - 1"

text \<open>
  \<open>datetime - timedelta\<close>: Python raises \<open>OverflowError\<close> when the result is not a
  date between \<open>datetime.min\<close> and \<open>datetime.max\<close>.
\<close>

definition datetime_sub :: "datetime \<Rightarrow> timedelta \<Rightarrow> error + datetime" where
  "datetime_sub d delta =
     (let r = d - delta in if r < 0 \<or> datetime_max < r then Inl OverflowError else Inr r)"

text \<open>\<open>datetime - datetime\<close>: the \<open>timedelta\<close> between the two.\<close>

definition datetime_diff :: "datetime \<Rightarrow> datetime \<Rightarrow> timedelta" where
  "datetime_diff d1 d2 = d1 - d2"

text \<open>\<open>df.empty\<close>: true when one of the two axes has length 0.\<close>

definition df_empty :: "'p dataframe \<Rightarrow> bool" where
  "df_empty df = (df_index df = [] \<or> df_columns df = [])"

text \<open>\<open>df[key]\<close>: the column, or \<open>KeyError\<close>.\<close>

definition df_getitem :: "'p dataframe \<Rightarrow> string \<Rightarrow> error + 'p list" where
  "df_getitem df key =
     (case map_of (df_columns df) key of None \<Rightarrow> Inl (KeyError key) | Some col \<Rightarrow> Inr col)"

text \<open>\<open>go.Figure()\<close>: no trace, nothing set in the layout.\<close>

definition Figure :: "'p figure" where
  "Figure =
     \<lparr>fig_data = [],
      fig_layout = \<lparr>lo_title = None, lo_xaxis_title = None, lo_yaxis_title = None,
                    lo_hovermode = None, lo_template = None\<rparr>\<rparr>"

definition Scatter :: "datetime list \<Rightarrow> 'p list \<Rightarrow> string \<Rightarrow> string \<Rightarrow> 'p scatter" where
  "Scatter xs ys m n = \<lparr>sc_x = xs, sc_y = ys, sc_mode = m, sc_name = n\<rparr>"

definition add_trace :: "'p figure \<Rightarrow> 'p scatter \<Rightarrow> 'p figure" where
  "add_trace fig tr = fig\<lparr>fig_data := fig_data fig @ [tr]\<rparr>"

definition update_layout ::
    "'p figure \<Rightarrow> string \<Rightarrow> string \<Rightarrow> string \<Rightarrow> string \<Rightarrow> string \<Rightarrow> 'p figure" where
  "update_layout fig t xt yt hm tp =
     fig\<lparr>fig_layout := (fig_layout fig)\<lparr>lo_title := Some t, lo_xaxis_title := Some xt,
            lo_yaxis_title := Some yt, lo_hovermode := Some hm, lo_template := Some tp\<rparr>\<rparr>"

definition st_title :: "string \<Rightarrow> 'p session \<Rightarrow> 'p session" where
  "st_title body st = st\<lparr>page := page st @ [Title body]\<rparr>"

text \<open>
  \<open>st.multiselect\<close> draws the widget and returns the user's current choice: the default
  when the user has not touched the widget (\<open>None\<close>), what the user chose otherwise.
\<close>

definition st_multiselect ::
    "string \<Rightarrow> string list \<Rightarrow> string list \<Rightarrow> string list option \<Rightarrow> 'p session
      \<Rightarrow> string list \<times> 'p session" where
  "st_multiselect label options dflt widget st =
     ((case widget of None \<Rightarrow> dflt | Some chosen \<Rightarrow> chosen),
      st\<lparr>page := page st @ [Multiselect label options dflt]\<rparr>)"

definition st_warning :: "string \<Rightarrow> 'p session \<Rightarrow> 'p session" where
  "st_warning body st = st\<lparr>page := page st @ [Warning body]\<rparr>"

definition st_info :: "string \<Rightarrow> 'p session \<Rightarrow> 'p session" where
  "st_info body st = st\<lparr>page := page st @ [Info body]\<rparr>"

definition st_plotly_chart :: "'p figure \<Rightarrow> bool \<Rightarrow> 'p session \<Rightarrow> 'p session" where
  "st_plotly_chart fig use_container_width st =
     st\<lparr>page := page st @ [PlotlyChart fig use_container_width]\<rparr>"

text \<open>
  \<open>yf.download(ticker, start=..., end=...)\<close>: the request is recorded, the provider
  \<open>dl\<close> answers with a table or raises.
\<close>

definition yf_download ::
    "'p download \<Rightarrow> string \<Rightarrow> datetime \<Rightarrow> datetime \<Rightarrow> 'p session
      \<Rightarrow> (error + 'p dataframe) \<times> 'p session" where
  "yf_download dl ticker start_date end_date st =
     (dl ticker start_date end_date,
      st\<lparr>requests := requests st @ [(ticker, start_date, end_date)]\<rparr>)"

subsection \<open>The script\<close>

text \<open>Lines 35 to 45: the body of the loop, for one selected name.\<close>

definition loop_body ::
    "'p download \<Rightarrow> datetime \<Rightarrow> datetime \<Rightarrow> string \<Rightarrow> 'p figure \<times> 'p session
      \<Rightarrow> error option \<times> 'p figure \<times> 'p session" where
  "loop_body dl start_date end_date name fs =
     (case fs of (fig, st) \<Rightarrow>
       (case dict_getitem (companies st) name of
          Inl err \<Rightarrow> (Some err, fig, st)
        | Inr ticker \<Rightarrow>
            (case yf_download dl ticker start_date end_date st of
               (Inl err, st1) \<Rightarrow> (Some err, fig, st1)
             | (Inr df, st1) \<Rightarrow>
                 if \<not> df_empty df then
                   (case df_getitem df ''Close'' of
                      Inl err \<Rightarrow> (Some err, fig, st1)
                    | Inr close \<Rightarrow>
                        (None, add_trace fig (Scatter (df_index df) close ''lines'' name), st1))
                 else (None, fig, st_warning (name @ warning_suffix) st1))))"

text \<open>Line 34: \<open>for name in selected\<close>; an exception of the body ends the loop.\<close>

fun for_selected ::
    "'p download \<Rightarrow> datetime \<Rightarrow> datetime \<Rightarrow> string list \<Rightarrow> 'p figure \<times> 'p session
      \<Rightarrow> error option \<times> 'p figure \<times> 'p session" where
  "for_selected dl start_date end_date [] fs = (None, fs)"
| "for_selected dl start_date end_date (name # rest) fs =
     (case loop_body dl start_date end_date name fs of
        (Some err, fs1) \<Rightarrow> (Some err, fs1)
      | (None, fs1) \<Rightarrow> for_selected dl start_date end_date rest fs1)"

text \<open>Lines 28 and 29: \<open>end_date\<close> is today, \<open>start_date\<close> is \<open>3*365\<close> days before.\<close>

definition date_range :: "datetime \<Rightarrow> error + datetime \<times> datetime" where
  "date_range today =
     (let end_date = today in
      case datetime_sub end_date (timedelta (3 * 365)) of
        Inl err \<Rightarrow> Inl err
      | Inr start_date \<Rightarrow> Inr (start_date, end_date))"

text \<open>
  The whole script, lines 8 to 58. Its inputs are the provider, the value of
  \<open>datetime.today()\<close> and the state of the widget; its result is the exception that
  ended the pass, if any, and the session state reached.
\<close>

definition script ::
    "'p download \<Rightarrow> datetime \<Rightarrow> string list option \<Rightarrow> error option \<times> 'p session" where
  "script dl today widget =
     (let st0 = \<lparr>companies = top10_companies, page = [], requests = []\<rparr>;
          st1 = st_title page_title st0;
          (selected, st2) =
            st_multiselect multiselect_label (dict_keys (companies st1))
              multiselect_default widget st1
      in
        if selected \<noteq> [] then
          (case date_range today of
             Inl err \<Rightarrow> (Some err, st2)
           | Inr (start_date, end_date) \<Rightarrow>
               (case for_selected dl start_date end_date selected (Figure, st2) of
                  (Some err, fig, st3) \<Rightarrow> (Some err, st3)
                | (None, fig, st3) \<Rightarrow>
                    (let fig1 = update_layout fig chart_title chart_xaxis_title
                                  chart_yaxis_title ''x unified'' ''plotly_white''
                     in (None, st_plotly_chart fig1 True st3))))
        else (None, st_info info_text st2))"

subsection \<open>Observing a pass\<close>

text \<open>
  The functions of this subsection are not part of the script: they read off a pass
  what the properties below talk about.
\<close>

text \<open>The list that \<open>st.multiselect\<close> returns at line 24 for a state of the widget.\<close>

definition selection_of :: "string list option \<Rightarrow> string list" where
  "selection_of widget = (case widget of None \<Rightarrow> multiselect_default | Some chosen \<Rightarrow> chosen)"

text \<open>The figures, warnings, prompts and multi-selects on a page, in order.\<close>

fun charts :: "'p element list \<Rightarrow> 'p figure list" where
  "charts [] = []"
| "charts (PlotlyChart fig w # es) = fig # charts es"
| "charts (Title v # es) = charts es"
| "charts (Multiselect l opts d # es) = charts es"
| "charts (Warning v # es) = charts es"
| "charts (Info v # es) = charts es"

fun warnings :: "'p element list \<Rightarrow> string list" where
  "warnings [] = []"
| "warnings (Warning body # es) = body # warnings es"
| "warnings (Title v # es) = warnings es"
| "warnings (Multiselect l opts d # es) = warnings es"
| "warnings (Info v # es) = warnings es"
| "warnings (PlotlyChart fig w # es) = warnings es"

fun infos :: "'p element list \<Rightarrow> string list" where
  "infos [] = []"
| "infos (Info body # es) = body # infos es"
| "infos (Title v # es) = infos es"
| "infos (Multiselect l opts d # es) = infos es"
| "infos (Warning v # es) = infos es"
| "infos (PlotlyChart fig w # es) = infos es"

fun multiselects :: "'p element list \<Rightarrow> (string list \<times> string list) list" where
  "multiselects [] = []"
| "multiselects (Multiselect l opts d # es) = (opts, d) # multiselects es"
| "multiselects (Title v # es) = multiselects es"
| "multiselects (Warning v # es) = multiselects es"
| "multiselects (Info v # es) = multiselects es"
| "multiselects (PlotlyChart fig w # es) = multiselects es"

text \<open>The exception that ended a pass, and the figures the pass rendered.\<close>

definition raised :: "error option \<times> 'p session \<Rightarrow> error option" where
  "raised r = fst r"

definition rendered :: "error option \<times> 'p session \<Rightarrow> 'p figure list" where
  "rendered r = charts (page (snd r))"

text \<open>The start of the window for a value of \<open>datetime.today()\<close>.\<close>

definition start_of :: "datetime \<Rightarrow> datetime" where
  "start_of today = today - timedelta (3 * 365)"

text \<open>
  Lines 28 and 29 do not raise: the start of the window is a date Python can
  represent, between \<open>datetime.min\<close> and \<open>datetime.max\<close>. Every date from the year 4
  on is such a value of \<open>datetime.today()\<close>.
\<close>

definition clock_ok :: "datetime \<Rightarrow> bool" where
  "clock_ok today = (0 \<le> start_of today \<and> start_of today \<le> datetime_max)"

text \<open>
  What the provider answers for a label: \<open>fetched\<close> is the table it returns for the
  label's ticker (\<open>None\<close> when the label is not in the dictionary or the provider
  raises). A label \<open>has_series\<close> when the table is not empty and has a \<open>Close\<close> column,
  it has \<open>no_series\<close> when the table is empty, and the provider \<open>answers\<close> for it in
  both cases.
\<close>

definition fetched :: "'p download \<Rightarrow> datetime \<Rightarrow> datetime \<Rightarrow> string \<Rightarrow> 'p dataframe option" where
  "fetched dl s e name =
     (case map_of top10_companies name of
        None \<Rightarrow> None
      | Some ticker \<Rightarrow> (case dl ticker s e of Inl err \<Rightarrow> None | Inr df \<Rightarrow> Some df))"

definition has_series :: "'p download \<Rightarrow> datetime \<Rightarrow> datetime \<Rightarrow> string \<Rightarrow> bool" where
  "has_series dl s e name =
     (case fetched dl s e name of
        None \<Rightarrow> False
      | Some df \<Rightarrow> \<not> df_empty df \<and> map_of (df_columns df) ''Close'' \<noteq> None)"

definition no_series :: "'p download \<Rightarrow> datetime \<Rightarrow> datetime \<Rightarrow> string \<Rightarrow> bool" where
  "no_series dl s e name =
     (case fetched dl s e name of None \<Rightarrow> False | Some df \<Rightarrow> df_empty df)"

definition answers :: "'p download \<Rightarrow> datetime \<Rightarrow> datetime \<Rightarrow> string \<Rightarrow> bool" where
  "answers dl s e name = (has_series dl s e name \<or> no_series dl s e name)"

text \<open>The trace a label contributes: one for a label with a series, none otherwise.\<close>

definition traces_of :: "'p download \<Rightarrow> datetime \<Rightarrow> datetime \<Rightarrow> string \<Rightarrow> 'p scatter list" where
  "traces_of dl s e name =
     (case fetched dl s e name of
        None \<Rightarrow> []
      | Some df \<Rightarrow>
          if df_empty df then []
          else (case map_of (df_columns df) ''Close'' of
                  None \<Rightarrow> []
                | Some close \<Rightarrow> [Scatter (df_index df) close ''lines'' name]))"

text \<open>The tickers of a list of labels, in order.\<close>

definition tickers :: "string list \<Rightarrow> string list" where
  "tickers names = List.map_filter (map_of top10_companies) names"

text \<open>
  The result of the download for a label at a value of \<open>datetime.today()\<close>: a table or
  an exception (\<open>None\<close> when the label is not in the dictionary).
\<close>

definition fetch_result :: "'p download \<Rightarrow> datetime \<Rightarrow> string \<Rightarrow> (error + 'p dataframe) option" where
  "fetch_result dl today name =
     map_option (\<lambda>ticker. dl ticker (start_of today) today) (map_of top10_companies name)"

text \<open>
  What a step of the loop shows apart from the request log: the exception, the figure,
  the dictionary and the page.
\<close>

definition view ::
    "error option \<times> 'p figure \<times> 'p session
      \<Rightarrow> error option \<times> 'p figure \<times> (string \<times> string) list \<times> 'p element list" where
  "view r = (case r of (err, fig, st) \<Rightarrow> (err, fig, companies st, page st))"

text \<open>The layout that lines 48 to 54 set.\<close>

definition chart_layout :: layout where
  "chart_layout =
     \<lparr>lo_title = Some chart_title, lo_xaxis_title = Some chart_xaxis_title,
      lo_yaxis_title = Some chart_yaxis_title, lo_hovermode = Some ''x unified'',
      lo_template = Some ''plotly_white''\<rparr>"

text \<open>
  A provider for the examples: no data for TSM, a fault for V, and for every other
  ticker a table of two days with an opening and a closing price (in cents).
\<close>

definition demo_download :: "int download" where
  "demo_download ticker s e =
     (if ticker = ''TSM'' then Inr \<lparr>df_index = [], df_columns = []\<rparr>
      else if ticker = ''V'' then Inl (ProviderFault ''timeout'')
      else Inr \<lparr>df_index = [e - timedelta 2, e - timedelta 1],
                df_columns = [(''Open'', [22150, 22310]), (''Close'', [22290, 22405])]\<rparr>)"

text \<open>2026-11-03 00:00:00, day 739922 after \<open>datetime.min\<close>, and one hour later.\<close>

definition demo_today :: datetime where
  "demo_today = timedelta 739922"

definition demo_later :: datetime where
  "demo_later = demo_today + 3600000000"

text \<open>A second provider: it answers an hour later what the first answers now.\<close>

definition demo_mirror :: "int download" where
  "demo_mirror ticker s e = demo_download ticker (s - 3600000000) (e - 3600000000)"

text \<open>A selection of three labels, the second of which has no data.\<close>

definition demo_selection :: "string list" where
  "demo_selection = [''Apple (AAPL)'', ''TSMC (TSM)'', ''Meta (META)'']"

text \<open>A selection whose second label makes the provider raise.\<close>

definition demo_faulty :: "string list" where
  "demo_faulty = [''Apple (AAPL)'', ''Visa (V)'', ''TSMC (TSM)'']"

section \<open>Properties\<close>

subsection \<open>The loop and the script when the provider answers\<close>

lemma loop_body_answers:
  assumes "companies st = top10_companies" "answers dl s e name"
  shows "loop_body dl s e name (fig, st) =
       (None, fig\<lparr>fig_data := fig_data fig @ traces_of dl s e name\<rparr>,
        st\<lparr>page := page st @ map (\<lambda>l. Warning (l @ warning_suffix)) (filter (no_series dl s e) [name]),
           requests := requests st @ map (\<lambda>t. (t, s, e)) (tickers [name])\<rparr>)"
  using assms
  by (auto simp: answers_def has_series_def no_series_def traces_of_def tickers_def
      List.map_filter_def fetched_def loop_body_def dict_getitem_def yf_download_def
      df_getitem_def st_warning_def add_trace_def split: option.splits sum.splits)

lemma tickers_Cons: "tickers (name # names) = tickers [name] @ tickers names"
  by (simp add: tickers_def List.map_filter_def)

lemma tickers_append: "tickers (xs @ ys) = tickers xs @ tickers ys"
  by (simp add: tickers_def List.map_filter_def)

lemma for_selected_answers:
  assumes "companies st = top10_companies" "list_all (answers dl s e) names"
  shows "for_selected dl s e names (fig, st) =
       (None, fig\<lparr>fig_data := fig_data fig @ concat (map (traces_of dl s e) names)\<rparr>,
        st\<lparr>page := page st @ map (\<lambda>l. Warning (l @ warning_suffix)) (filter (no_series dl s e) names),
           requests := requests st @ map (\<lambda>t. (t, s, e)) (tickers names)\<rparr>)"
  using assms
proof (induction names arbitrary: fig st)
  case Nil
  then show ?case by (simp add: tickers_def List.map_filter_def)
next
  case (Cons name names)
  have a: "answers dl s e name" and as: "list_all (answers dl s e) names"
    using Cons.prems(2) by simp_all
  show ?case
    by (simp add: loop_body_answers [OF Cons.prems(1) a] Cons.IH [OF _ as] Cons.prems(1)
        tickers_Cons [of name names])
qed

lemma for_selected_append:
  "for_selected dl s e (xs @ ys) fs =
     (case for_selected dl s e xs fs of
        (Some err, fs1) \<Rightarrow> (Some err, fs1)
      | (None, fs1) \<Rightarrow> for_selected dl s e ys fs1)"
  by (induction xs arbitrary: fs) (auto split: prod.splits option.splits)

lemma loop_body_raises:
  assumes "companies st = top10_companies" "map_of top10_companies name = Some t"
    "dl t s e = Inl err"
  shows "loop_body dl s e name (fig, st) =
       (Some err, fig, st\<lparr>requests := requests st @ [(t, s, e)]\<rparr>)"
  using assms by (simp add: loop_body_def dict_getitem_def yf_download_def)

lemma date_range_eq:
  "date_range today =
     (if clock_ok today then Inr (start_of today, today) else Inl OverflowError)"
  by (auto simp: clock_ok_def date_range_def datetime_sub_def start_of_def Let_def)

lemma date_range_clock_ok:
  "clock_ok today \<Longrightarrow> date_range today = Inr (start_of today, today)"
  by (simp add: date_range_eq)

lemma update_layout_eq:
  "update_layout fig t xt yt hm tp =
     \<lparr>fig_data = fig_data fig,
      fig_layout = \<lparr>lo_title = Some t, lo_xaxis_title = Some xt, lo_yaxis_title = Some yt,
                    lo_hovermode = Some hm, lo_template = Some tp\<rparr>\<rparr>"
  by (cases fig, cases "fig_layout fig") (simp add: update_layout_def)

lemma fig_data_Figure: "fig_data Figure = []"
  by (simp add: Figure_def)

lemma script_empty:
  assumes "selection_of widget = []"
  shows "script dl today widget =
     (None, \<lparr>companies = top10_companies,
             page = [Title page_title,
                     Multiselect multiselect_label (dict_keys top10_companies) multiselect_default,
                     Info info_text],
             requests = []\<rparr>)"
  using assms
  by (simp add: script_def selection_of_def st_title_def st_multiselect_def st_info_def)

lemma script_completes:
  assumes "selection_of widget = S" "S \<noteq> []" "clock_ok today"
    "list_all (answers dl (start_of today) today) S"
  shows "script dl today widget =
     (None, \<lparr>companies = top10_companies,
             page = [Title page_title,
                     Multiselect multiselect_label (dict_keys top10_companies) multiselect_default]
                    @ map (\<lambda>l. Warning (l @ warning_suffix))
                        (filter (no_series dl (start_of today) today) S)
                    @ [PlotlyChart
                         \<lparr>fig_data = concat (map (traces_of dl (start_of today) today) S),
                          fig_layout = chart_layout\<rparr> True],
             requests = map (\<lambda>t. (t, start_of today, today)) (tickers S)\<rparr>)"
proof -
  let ?st2 = "\<lparr>companies = top10_companies,
      page = [Title page_title,
              Multiselect multiselect_label (dict_keys top10_companies) multiselect_default],
      requests = []\<rparr> :: 'a session"
  have c: "companies ?st2 = top10_companies" by simp
  note loop = for_selected_answers [OF c assms(4), of Figure]
  show ?thesis
    using assms(1,2)
    by (simp add: script_def selection_of_def st_title_def st_multiselect_def
        date_range_clock_ok [OF assms(3)] loop update_layout_eq st_plotly_chart_def
        fig_data_Figure chart_layout_def)
qed

lemma script_fetch_raises:
  assumes "selection_of widget = pre @ name # post" "clock_ok today"
    "list_all (answers dl (start_of today) today) pre"
    "map_of top10_companies name = Some t" "dl t (start_of today) today = Inl err"
  shows "script dl today widget =
     (Some err, \<lparr>companies = top10_companies,
             page = [Title page_title,
                     Multiselect multiselect_label (dict_keys top10_companies) multiselect_default]
                    @ map (\<lambda>l. Warning (l @ warning_suffix))
                        (filter (no_series dl (start_of today) today) pre),
             requests = map (\<lambda>t. (t, start_of today, today)) (tickers (pre @ [name]))\<rparr>)"
proof -
  let ?st2 = "\<lparr>companies = top10_companies,
      page = [Title page_title,
              Multiselect multiselect_label (dict_keys top10_companies) multiselect_default],
      requests = []\<rparr> :: 'a session"
  have c: "companies ?st2 = top10_companies" by simp
  note loop = for_selected_answers [OF c assms(3), of Figure]
  have tk: "tickers [name] = [t]"
    using assms(4) by (simp add: tickers_def List.map_filter_def)
  have lb: "\<And>fig st. companies st = top10_companies \<Longrightarrow>
      loop_body dl (start_of today) today name (fig, st) =
        (Some err, fig, st\<lparr>requests := requests st @ [(t, start_of today, today)]\<rparr>)"
    using assms(4,5) by (simp add: loop_body_raises)
  show ?thesis
    using assms(1)
    by (simp add: script_def selection_of_def st_title_def st_multiselect_def
        date_range_clock_ok [OF assms(2)] for_selected_append loop lb tickers_append tk)
qed

subsection \<open>What every pass leaves behind, whatever the provider does\<close>

lemma charts_append: "charts (xs @ ys) = charts xs @ charts ys"
  by (induction xs rule: charts.induct) simp_all

lemma infos_append: "infos (xs @ ys) = infos xs @ infos ys"
  by (induction xs rule: infos.induct) simp_all

lemma multiselects_append: "multiselects (xs @ ys) = multiselects xs @ multiselects ys"
  by (induction xs rule: multiselects.induct) simp_all

lemma charts_Warning: "charts (map Warning ws) = []"
  by (induction ws) simp_all

lemma infos_Warning: "infos (map Warning ws) = []"
  by (induction ws) simp_all

lemma multiselects_Warning: "multiselects (map Warning ws) = []"
  by (induction ws) simp_all

lemma loop_body_frame:
  "\<exists>r fig' st' ws ts. loop_body dl s e name (fig, st) = (r, fig', st')
     \<and> companies st' = companies st
     \<and> page st' = page st @ map Warning ws
     \<and> requests st' = requests st @ map (\<lambda>t. (t, s, e)) ts"
proof (cases "loop_body dl s e name (fig, st)")
  case (fields r fig' st')
  have "companies st' = companies st"
    using fields
    by (auto simp: loop_body_def dict_getitem_def yf_download_def df_getitem_def
        st_warning_def split: option.splits sum.splits if_splits)
  moreover have "page st' = page st @ map Warning [] \<or> page st' = page st @ map Warning [name @ warning_suffix]"
    using fields
    by (auto simp: loop_body_def dict_getitem_def yf_download_def df_getitem_def
        st_warning_def split: option.splits sum.splits if_splits)
  then have "\<exists>ws. page st' = page st @ map Warning ws" by blast
  moreover have "(\<exists>t. requests st' = requests st @ map (\<lambda>t. (t, s, e)) [t]) \<or> requests st' = requests st @ map (\<lambda>t. (t, s, e)) []"
    using fields
    by (auto simp: loop_body_def dict_getitem_def yf_download_def df_getitem_def
        st_warning_def split: option.splits sum.splits if_splits)
  then have "\<exists>ts. requests st' = requests st @ map (\<lambda>t. (t, s, e)) ts" by blast
  ultimately show ?thesis using fields by blast
qed

lemma for_selected_frame:
  "\<exists>r fig' st' ws ts. for_selected dl s e names (fig, st) = (r, fig', st')
     \<and> companies st' = companies st
     \<and> page st' = page st @ map Warning ws
     \<and> requests st' = requests st @ map (\<lambda>t. (t, s, e)) ts"
proof (induction names arbitrary: fig st)
  case Nil
  have "page st = page st @ map Warning []" "requests st = requests st @ map (\<lambda>t. (t, s, e)) []"
    by simp_all
  then show ?case by (metis for_selected.simps(1))
next
  case (Cons name names)
  obtain r fig1 st1 ws1 ts1 where b: "loop_body dl s e name (fig, st) = (r, fig1, st1)"
    and c1: "companies st1 = companies st" and p1: "page st1 = page st @ map Warning ws1"
    and r1: "requests st1 = requests st @ map (\<lambda>t. (t, s, e)) ts1"
    using loop_body_frame [of dl s e name fig st] by blast
  show ?case
  proof (cases r)
    case (Some err)
    then have "for_selected dl s e (name # names) (fig, st) = (Some err, fig1, st1)"
      using b by simp
    then show ?thesis using c1 p1 r1 by blast
  next
    case None
    obtain r' fig2 st2 ws2 ts2 where l: "for_selected dl s e names (fig1, st1) = (r', fig2, st2)"
      and c2: "companies st2 = companies st1" and p2: "page st2 = page st1 @ map Warning ws2"
      and r2: "requests st2 = requests st1 @ map (\<lambda>t. (t, s, e)) ts2"
      using Cons.IH [of fig1 st1] by blast
    have "for_selected dl s e (name # names) (fig, st) = (r', fig2, st2)"
      using b None l by simp
    moreover have "companies st2 = companies st" using c1 c2 by simp
    moreover have "page st2 = page st @ map Warning (ws1 @ ws2)" using p1 p2 by simp
    moreover have "requests st2 = requests st @ map (\<lambda>t. (t, s, e)) (ts1 @ ts2)"
      using r1 r2 by simp
    ultimately show ?thesis by blast
  qed
qed

text \<open>The shape of the page and of the state after any pass.\<close>

lemma script_frame:
  "\<exists>ws tail ts.
     companies (snd (script dl today widget)) = top10_companies
     \<and> page (snd (script dl today widget)) =
         [Title page_title,
          Multiselect multiselect_label (dict_keys top10_companies) multiselect_default]
         @ map Warning ws @ tail
     \<and> requests (snd (script dl today widget)) = map (\<lambda>t. (t, start_of today, today)) ts
     \<and> (if selection_of widget = [] then tail = [Info info_text]
         else if raised (script dl today widget) = None
           then \<exists>fig. tail = [PlotlyChart fig True] \<and> fig_layout fig = chart_layout
           else tail = [])"
proof (cases "selection_of widget = []")
  case True
  have "[Title page_title, Multiselect multiselect_label (dict_keys top10_companies) multiselect_default, Info info_text]
      = [Title page_title, Multiselect multiselect_label (dict_keys top10_companies) multiselect_default] @ map Warning [] @ [Info info_text]"
    by simp
  moreover have "([] :: (string \<times> datetime \<times> datetime) list) = map (\<lambda>t. (t, start_of today, today)) []"
    by simp
  ultimately show ?thesis
    unfolding script_empty [OF True, of dl today] using True
    by (metis (no_types, lifting) session.select_convs(1,2,3) snd_conv)
next
  case False
  let ?st2 = "\<lparr>companies = top10_companies,
      page = [Title page_title,
              Multiselect multiselect_label (dict_keys top10_companies) multiselect_default],
      requests = []\<rparr> :: 'a session"
  show ?thesis
  proof (cases "date_range today")
    case (Inl err)
    have "script dl today widget = (Some err, ?st2)"
      using False Inl
      by (simp add: script_def selection_of_def st_title_def st_multiselect_def)
    then show ?thesis
      using False by (simp add: raised_def exI [of _ "[]"])
  next
    case (Inr se)
    then have se: "date_range today = Inr (start_of today, today)"
      by (auto simp: date_range_def datetime_sub_def Let_def start_of_def split: if_splits)
    obtain r fig st3 ws ts where l:
      "for_selected dl (start_of today) today (selection_of widget) (Figure, ?st2) = (r, fig, st3)"
      and c: "companies st3 = companies ?st2" and p: "page st3 = page ?st2 @ map Warning ws"
      and q: "requests st3 = requests ?st2 @ map (\<lambda>t. (t, start_of today, today)) ts"
      using for_selected_frame [of dl "start_of today" today "selection_of widget" Figure ?st2]
      by blast
    show ?thesis
    proof (cases r)
      case None
      have "script dl today widget =
          (None, st_plotly_chart (update_layout fig chart_title chart_xaxis_title
             chart_yaxis_title ''x unified'' ''plotly_white'') True st3)"
        using False se l None
        by (simp add: script_def selection_of_def st_title_def st_multiselect_def)
      then show ?thesis
        using False c p q
        by (simp add: raised_def st_plotly_chart_def update_layout_eq chart_layout_def
            exI [of _ ws] exI [of _ ts])
    next
      case (Some err)
      have "script dl today widget = (Some err, st3)"
        using False se l Some
        by (simp add: script_def selection_of_def st_title_def st_multiselect_def)
      then show ?thesis
        using False c p q by (simp add: raised_def exI [of _ ws] exI [of _ ts])
    qed
  qed
qed

subsection \<open>Reading the page, the figure and the request log\<close>

lemma traces_of_names:
  "map sc_name (concat (map (traces_of dl s e) names)) = filter (has_series dl s e) names"
  by (induction names)
    (auto simp: traces_of_def has_series_def Scatter_def split: option.splits)

lemma traces_of_series:
  "list_all2 (\<lambda>tr name. \<exists>df. fetched dl s e name = Some df \<and> sc_x tr = df_index df
        \<and> df_getitem df ''Close'' = Inr (sc_y tr) \<and> sc_mode tr = ''lines'' \<and> sc_name tr = name)
     (concat (map (traces_of dl s e) names)) (filter (has_series dl s e) names)"
  by (induction names)
    (auto simp: traces_of_def has_series_def Scatter_def df_getitem_def split: option.splits)

lemma has_no_series: "has_series dl s e name \<Longrightarrow> \<not> no_series dl s e name"
  by (auto simp: has_series_def no_series_def split: option.splits)

lemma count_distinct:
  "distinct ys \<Longrightarrow> length (filter (\<lambda>n. n = l) ys) = (if l \<in> set ys then 1 else 0)"
  by (induction ys) auto

lemma count_named:
  "length (filter (\<lambda>tr. sc_name tr = l) trs) = length (filter (\<lambda>n. n = l) (map sc_name trs))"
  by (induction trs) auto

lemma warning_text_absent:
  "l \<notin> set names \<Longrightarrow> count_list (map (\<lambda>n. n @ sfx) names) (l @ sfx) = 0"
  by (induction names) auto

lemma warning_text_once:
  "distinct names \<Longrightarrow> l \<in> set names \<Longrightarrow> count_list (map (\<lambda>n. n @ sfx) names) (l @ sfx) = 1"
  by (induction names) (auto simp: warning_text_absent)

lemma warnings_script_page:
  "warnings (map (\<lambda>l. Warning (f l)) names @ tail) = map f names @ warnings tail"
  by (induction names) simp_all

lemma charts_script_page:
  "charts (map (\<lambda>l. Warning (f l)) names @ tail) = charts tail"
  by (induction names) simp_all

lemma infos_script_page:
  "infos (map (\<lambda>l. Warning (f l)) names @ tail) = infos tail"
  by (induction names) simp_all

lemma answers_ticker:
  "answers dl s e name \<Longrightarrow> \<exists>t. map_of top10_companies name = Some t"
  by (auto simp: answers_def has_series_def no_series_def fetched_def split: option.splits)

lemma tickers_length:
  "list_all (answers dl s e) names \<Longrightarrow> length (tickers names) = length names"
proof (induction names)
  case Nil
  then show ?case by (simp add: tickers_def List.map_filter_def)
next
  case (Cons name names)
  then obtain t where "map_of top10_companies name = Some t"
    using answers_ticker [of dl s e name] by auto
  then have "tickers [name] = [t]" by (simp add: tickers_def List.map_filter_def)
  then show ?case using Cons by (simp add: tickers_Cons [of name names])
qed

lemma no_series_raise:
  "fetch_result dl today name = Some (Inl err) \<Longrightarrow> \<not> no_series dl (start_of today) today name"
  by (auto simp: fetch_result_def no_series_def fetched_def split: option.splits)

lemma script_tail:
  "\<exists>ws tail. page (snd (script dl today widget)) =
         Title page_title
         # Multiselect multiselect_label (dict_keys top10_companies) multiselect_default
         # map Warning ws @ tail
     \<and> (if selection_of widget = [] then tail = [Info info_text]
         else if raised (script dl today widget) = None
           then \<exists>fig. tail = [PlotlyChart fig True] \<and> fig_layout fig = chart_layout
           else tail = [])"
proof -
  obtain ws tail where "page (snd (script dl today widget)) =
         [Title page_title,
          Multiselect multiselect_label (dict_keys top10_companies) multiselect_default]
         @ map Warning ws @ tail"
    and "if selection_of widget = [] then tail = [Info info_text]
         else if raised (script dl today widget) = None
           then \<exists>fig. tail = [PlotlyChart fig True] \<and> fig_layout fig = chart_layout
           else tail = []"
    using script_frame [of dl today widget] by blast
  then show ?thesis by (intro exI [of _ ws] exI [of _ tail]) simp
qed

lemma loop_body_view:
  assumes "companies st1 = C" and "companies st2 = C" and "page st1 = page st2"
    and "map_option (\<lambda>t. dl1 t s1 e1) (map_of C name) = map_option (\<lambda>t. dl2 t s2 e2) (map_of C name)"
  shows "view (loop_body dl1 s1 e1 name (fig, st1)) = view (loop_body dl2 s2 e2 name (fig, st2))"
  using assms
  by (auto simp: view_def loop_body_def dict_getitem_def yf_download_def df_getitem_def
      st_warning_def split: option.splits sum.splits)

lemma for_selected_view:
  assumes "companies st1 = C" and "companies st2 = C" and "page st1 = page st2"
    and "list_all (\<lambda>name. map_option (\<lambda>t. dl1 t s1 e1) (map_of C name)
           = map_option (\<lambda>t. dl2 t s2 e2) (map_of C name)) names"
  shows "view (for_selected dl1 s1 e1 names (fig, st1)) =
         view (for_selected dl2 s2 e2 names (fig, st2))"
  using assms
proof (induction names arbitrary: fig st1 st2)
  case Nil
  then show ?case by (simp add: view_def)
next
  case (Cons name names)
  have same: "map_option (\<lambda>t. dl1 t s1 e1) (map_of C name)
      = map_option (\<lambda>t. dl2 t s2 e2) (map_of C name)"
    and rest: "list_all (\<lambda>name. map_option (\<lambda>t. dl1 t s1 e1) (map_of C name)
           = map_option (\<lambda>t. dl2 t s2 e2) (map_of C name)) names"
    using Cons.prems(4) by simp_all
  obtain r1 f1 st1' where b1: "loop_body dl1 s1 e1 name (fig, st1) = (r1, f1, st1')"
    and c1: "companies st1' = companies st1"
    using loop_body_frame [of dl1 s1 e1 name fig st1] by blast
  obtain r2 f2 st2' where b2: "loop_body dl2 s2 e2 name (fig, st2) = (r2, f2, st2')"
    and c2: "companies st2' = companies st2"
    using loop_body_frame [of dl2 s2 e2 name fig st2] by blast
  have v: "r1 = r2" "f1 = f2" "page st1' = page st2'"
    using loop_body_view [of st1 C st2 dl1 s1 e1 name dl2 s2 e2 fig] Cons.prems(1,2,3) same b1 b2
    by (simp_all add: view_def)
  show ?case
  proof (cases r1)
    case (Some err)
    then show ?thesis
      using b1 b2 v c1 c2 Cons.prems(1,2) by (simp add: view_def)
  next
    case None
    have "view (for_selected dl1 s1 e1 names (f1, st1')) =
          view (for_selected dl2 s2 e2 names (f1, st2'))"
      using Cons.IH [of st1' st2' f1] c1 c2 Cons.prems(1,2) v(3) rest by simp
    then show ?thesis
      using b1 b2 v None by simp
  qed
qed

lemma demo_clock: "clock_ok demo_today"
  by (simp add: clock_ok_def start_of_def demo_today_def timedelta_def datetime_max_def)

lemma demo_later_clock: "clock_ok demo_later"
  by (simp add: clock_ok_def start_of_def demo_later_def demo_today_def timedelta_def
      datetime_max_def)

lemma demo_has_series:
  "filter (has_series demo_download (start_of demo_today) demo_today) demo_selection =
     [''Apple (AAPL)'', ''Meta (META)'']"
  by (simp add: demo_selection_def has_series_def fetched_def top10_companies_def
      demo_download_def df_empty_def)

lemma demo_answers:
  "list_all (answers demo_download (start_of demo_today) demo_today) demo_selection"
  by (simp add: demo_selection_def answers_def has_series_def no_series_def fetched_def
      top10_companies_def demo_download_def df_empty_def)

lemma demo_default_answers:
  "list_all (answers demo_download (start_of demo_today) demo_today) (selection_of None)"
  by (simp add: selection_of_def multiselect_default_def answers_def has_series_def
      no_series_def fetched_def top10_companies_def demo_download_def df_empty_def)

lemma demo_faulty_result:
  "fetch_result demo_download demo_today ''Visa (V)'' = Some (Inl (ProviderFault ''timeout''))"
  by (simp add: fetch_result_def top10_companies_def demo_download_def)

section \<open>The claims\<close>

subsection \<open>The figure of a pass that runs to the end\<close>

text \<open>
  C1. Take a pass whose selection \<open>S\<close> is a non-empty list of distinct labels of the
  catalog, at a time for which Python can compute the window, with a provider that
  answers for every selected label (it returns a table, and a table that is not empty
  has a \<open>Close\<close> column). The pass ends without an exception and renders exactly one
  figure. The number of traces of the figure is the number of labels in \<open>S\<close> whose
  table is not empty, and for every label \<open>l\<close> the figure has exactly one trace named
  \<open>l\<close> when \<open>l\<close> is in \<open>S\<close> and its table is not empty, and none otherwise, so a
  label with an empty table contributes no trace.
\<close>

theorem one_trace_per_series:
  assumes "selection_of widget = S" and "S \<noteq> []" and "distinct S"
    and "set S \<subseteq> set (dict_keys top10_companies)"
    and "clock_ok today" and "list_all (answers dl (start_of today) today) S"
  shows "\<exists>fig. raised (script dl today widget) = None
     \<and> rendered (script dl today widget) = [fig]
     \<and> length (fig_data fig) = card {l \<in> set S. has_series dl (start_of today) today l}
     \<and> (\<forall>l. length (filter (\<lambda>tr. sc_name tr = l) (fig_data fig)) =
              (if l \<in> set S \<and> has_series dl (start_of today) today l then 1 else 0))"
proof -
  let ?P = "has_series dl (start_of today) today"
  let ?fig = "\<lparr>fig_data = concat (map (traces_of dl (start_of today) today) S),
               fig_layout = chart_layout\<rparr>"
  note run = script_completes [OF assms(1,2,5,6)]
  have r: "raised (script dl today widget) = None"
    by (simp add: run raised_def)
  have c: "rendered (script dl today widget) = [?fig]"
    by (simp add: run rendered_def charts_script_page)
  have n: "map sc_name (fig_data ?fig) = filter ?P S"
    by (simp add: traces_of_names)
  have d: "distinct (filter ?P S)" using assms(3) by simp
  have "length (fig_data ?fig) = length (filter ?P S)"
    using n by (metis length_map)
  also have "\<dots> = card (set (filter ?P S))" using distinct_card [OF d] by simp
  also have "set (filter ?P S) = {l \<in> set S. ?P l}" by simp
  finally have k: "length (fig_data ?fig) = card {l \<in> set S. ?P l}" .
  have "length (filter (\<lambda>tr. sc_name tr = l) (fig_data ?fig)) =
      (if l \<in> set S \<and> ?P l then 1 else 0)" for l
    unfolding count_named n using count_distinct [OF d, of l] by simp
  then show ?thesis using r c k by blast
qed

text \<open>
  An instance: Apple, TSMC and Meta are selected and the provider has no data for TSMC.
  The figure has two traces.
\<close>

theorem one_trace_per_series_witness:
  "selection_of (Some demo_selection) = demo_selection \<and> demo_selection \<noteq> []
   \<and> distinct demo_selection \<and> set demo_selection \<subseteq> set (dict_keys top10_companies)
   \<and> clock_ok demo_today
   \<and> list_all (answers demo_download (start_of demo_today) demo_today) demo_selection
   \<and> raised (script demo_download demo_today (Some demo_selection)) = None
   \<and> map (length \<circ> fig_data) (rendered (script demo_download demo_today (Some demo_selection)))
       = [2]"
proof -
  have h1: "selection_of (Some demo_selection) = demo_selection"
    by (simp add: selection_of_def)
  have h2: "demo_selection \<noteq> []" by (simp add: demo_selection_def)
  have h3: "distinct demo_selection" by (simp add: demo_selection_def)
  have h4: "set demo_selection \<subseteq> set (dict_keys top10_companies)"
    by (simp add: demo_selection_def dict_keys_def top10_companies_def)
  have "{l \<in> set demo_selection. has_series demo_download (start_of demo_today) demo_today l}
      = set (filter (has_series demo_download (start_of demo_today) demo_today) demo_selection)"
    by simp
  then have k: "card {l \<in> set demo_selection.
      has_series demo_download (start_of demo_today) demo_today l} = 2"
    unfolding demo_has_series by simp
  obtain fig where "raised (script demo_download demo_today (Some demo_selection)) = None"
    and "rendered (script demo_download demo_today (Some demo_selection)) = [fig]"
    and "length (fig_data fig) = card {l \<in> set demo_selection.
      has_series demo_download (start_of demo_today) demo_today l}"
    using one_trace_per_series [OF h1 h2 h3 h4 demo_clock demo_answers] by blast
  then show ?thesis using h1 h2 h3 h4 demo_clock demo_answers k by simp
qed

text \<open>
  C10. For a pass with a non-empty selection \<open>S\<close>, at a time for which Python can
  compute the window and with a provider that answers for every selected label, the
  names of the traces of the rendered figure are, in this order, the labels of \<open>S\<close>
  whose table is not empty: the k-th trace is named by the k-th such label. The
  x-values of that trace are the index of the table fetched for the label, its
  y-values are the \<open>Close\<close> column of that table, and it is drawn as lines.
\<close>

theorem traces_follow_selection:
  assumes "selection_of widget = S" and "S \<noteq> []"
    and "clock_ok today" and "list_all (answers dl (start_of today) today) S"
  shows "\<exists>fig. raised (script dl today widget) = None
     \<and> rendered (script dl today widget) = [fig]
     \<and> map sc_name (fig_data fig) = filter (has_series dl (start_of today) today) S
     \<and> (\<forall>k < length (fig_data fig).
          \<exists>df. fetched dl (start_of today) today
                  (filter (has_series dl (start_of today) today) S ! k) = Some df
             \<and> sc_name (fig_data fig ! k) = filter (has_series dl (start_of today) today) S ! k
             \<and> sc_x (fig_data fig ! k) = df_index df
             \<and> df_getitem df ''Close'' = Inr (sc_y (fig_data fig ! k))
             \<and> sc_mode (fig_data fig ! k) = ''lines'')"
proof -
  let ?P = "has_series dl (start_of today) today"
  let ?fig = "\<lparr>fig_data = concat (map (traces_of dl (start_of today) today) S),
               fig_layout = chart_layout\<rparr>"
  note run = script_completes [OF assms]
  have r: "raised (script dl today widget) = None"
    by (simp add: run raised_def)
  have c: "rendered (script dl today widget) = [?fig]"
    by (simp add: run rendered_def charts_script_page)
  have n: "map sc_name (fig_data ?fig) = filter ?P S"
    by (simp add: traces_of_names)
  have "list_all2 (\<lambda>tr name. \<exists>df. fetched dl (start_of today) today name = Some df
        \<and> sc_x tr = df_index df \<and> df_getitem df ''Close'' = Inr (sc_y tr)
        \<and> sc_mode tr = ''lines'' \<and> sc_name tr = name) (fig_data ?fig) (filter ?P S)"
    using traces_of_series [of dl "start_of today" today S] by simp
  then have "\<forall>k < length (fig_data ?fig).
      \<exists>df. fetched dl (start_of today) today (filter ?P S ! k) = Some df
         \<and> sc_name (fig_data ?fig ! k) = filter ?P S ! k
         \<and> sc_x (fig_data ?fig ! k) = df_index df
         \<and> df_getitem df ''Close'' = Inr (sc_y (fig_data ?fig ! k))
         \<and> sc_mode (fig_data ?fig ! k) = ''lines''"
    unfolding list_all2_conv_all_nth by blast
  then show ?thesis using r c n by blast
qed

text \<open>
  An instance: with Apple, TSMC and Meta selected and no data for TSMC, the traces are
  named Apple and Meta, in this order.
\<close>

theorem traces_follow_selection_witness:
  "selection_of (Some demo_selection) = demo_selection \<and> demo_selection \<noteq> []
   \<and> clock_ok demo_today
   \<and> list_all (answers demo_download (start_of demo_today) demo_today) demo_selection
   \<and> map (map sc_name \<circ> fig_data)
        (rendered (script demo_download demo_today (Some demo_selection)))
       = [[''Apple (AAPL)'', ''Meta (META)'']]"
proof -
  have h1: "selection_of (Some demo_selection) = demo_selection"
    by (simp add: selection_of_def)
  have h2: "demo_selection \<noteq> []" by (simp add: demo_selection_def)
  obtain fig where "rendered (script demo_download demo_today (Some demo_selection)) = [fig]"
    and "map sc_name (fig_data fig) =
      filter (has_series demo_download (start_of demo_today) demo_today) demo_selection"
    using traces_follow_selection [OF h1 h2 demo_clock demo_answers] by blast
  then show ?thesis using h1 h2 demo_clock demo_answers demo_has_series by simp
qed

text \<open>
  C6, amended. Every figure that a pass renders has the layout of lines 48 to 54:
  the title is the Korean literal of line 49 (\<open>chart_title\<close>, not an English
  text), the axis titles are the literals of lines 50 and 51, the hover mode is
  \<open>x unified\<close> and the template is \<open>plotly_white\<close>. The layout does not depend on the
  selection, on the number of traces, on the provider or on the time, and a pass with
  a non-empty selection for which the provider answers renders such a figure.
\<close>

theorem chart_layout_fixed:
  "(\<forall>fig \<in> set (rendered (script dl today widget)).
       fig_layout fig =
         \<lparr>lo_title = Some chart_title, lo_xaxis_title = Some chart_xaxis_title,
          lo_yaxis_title = Some chart_yaxis_title, lo_hovermode = Some ''x unified'',
          lo_template = Some ''plotly_white''\<rparr>)
   \<and> (selection_of widget \<noteq> [] \<and> clock_ok today
        \<and> list_all (answers dl (start_of today) today) (selection_of widget)
      \<longrightarrow> (\<exists>fig. rendered (script dl today widget) = [fig]))"
proof (intro conjI impI ballI)
  fix fig
  assume m: "fig \<in> set (rendered (script dl today widget))"
  obtain ws tail where p: "page (snd (script dl today widget)) =
         Title page_title
         # Multiselect multiselect_label (dict_keys top10_companies) multiselect_default
         # map Warning ws @ tail"
    and t: "tail = [Info info_text] \<or> tail = []
         \<or> (\<exists>fig. tail = [PlotlyChart fig True] \<and> fig_layout fig = chart_layout)"
    using script_tail [of dl today widget] by (metis (no_types, lifting))
  have c: "rendered (script dl today widget) = charts tail"
    unfolding rendered_def p by (simp add: charts_append charts_Warning)
  have "fig_layout fig = chart_layout"
    using t m unfolding c by auto
  then show "fig_layout fig =
         \<lparr>lo_title = Some chart_title, lo_xaxis_title = Some chart_xaxis_title,
          lo_yaxis_title = Some chart_yaxis_title, lo_hovermode = Some ''x unified'',
          lo_template = Some ''plotly_white''\<rparr>"
    by (simp add: chart_layout_def)
next
  assume a: "selection_of widget \<noteq> [] \<and> clock_ok today
        \<and> list_all (answers dl (start_of today) today) (selection_of widget)"
  show "\<exists>fig. rendered (script dl today widget) = [fig]"
    using script_completes [OF refl, of widget today dl] a
    by (simp add: rendered_def charts_script_page)
qed

text \<open>
  An instance: the pass of an untouched widget renders one figure, with this layout.
\<close>

theorem chart_layout_fixed_witness:
  "selection_of None \<noteq> [] \<and> clock_ok demo_today
   \<and> list_all (answers demo_download (start_of demo_today) demo_today) (selection_of None)
   \<and> map fig_layout (rendered (script demo_download demo_today None)) =
       [\<lparr>lo_title = Some chart_title, lo_xaxis_title = Some chart_xaxis_title,
         lo_yaxis_title = Some chart_yaxis_title, lo_hovermode = Some ''x unified'',
         lo_template = Some ''plotly_white''\<rparr>]"
proof -
  have ne: "selection_of None \<noteq> []" by (simp add: selection_of_def multiselect_default_def)
  note t = chart_layout_fixed [of demo_download demo_today None]
  obtain fig where f: "rendered (script demo_download demo_today None) = [fig]"
    using t ne demo_clock demo_default_answers by blast
  then have "fig_layout fig =
       \<lparr>lo_title = Some chart_title, lo_xaxis_title = Some chart_xaxis_title,
        lo_yaxis_title = Some chart_yaxis_title, lo_hovermode = Some ''x unified'',
        lo_template = Some ''plotly_white''\<rparr>"
    using t by simp
  then show ?thesis using f ne demo_clock demo_default_answers by simp
qed

text \<open>
  C6 as stated gives the title as \<open>3-year closing-price comparison\<close>. The figure that
  the pass of an untouched widget renders has the title of line 49, which is another
  string.
\<close>

theorem chart_title_counterexample:
  "map (lo_title \<circ> fig_layout) (rendered (script demo_download demo_today None))
     = [Some chart_title]
   \<and> chart_title \<noteq> ''3-year closing-price comparison''"
proof -
  have ne: "selection_of None \<noteq> []" by (simp add: selection_of_def multiselect_default_def)
  have "map (lo_title \<circ> fig_layout) (rendered (script demo_download demo_today None))
     = [Some chart_title]"
    by (simp add: script_completes [OF refl ne demo_clock demo_default_answers]
        rendered_def charts_script_page chart_layout_def)
  moreover have "chart_title \<noteq> ''3-year closing-price comparison''"
    by (simp add: chart_title_def)
  ultimately show ?thesis by blast
qed

subsection \<open>The window\<close>

text \<open>
  C2. Lines 28 and 29 compute the window from \<open>datetime.today()\<close> alone. Whenever
  Python can represent the start (every date from the year 4 on), the window is
  computed, and whenever a window is computed its end is today, its start is the end
  minus 1095 days and the difference of the two is exactly \<open>timedelta(days=1095)\<close>.
  Every download request of a pass, whatever the provider and the selection, carries
  this window.
\<close>

theorem date_range_1095_days:
  "(clock_ok today \<longrightarrow> date_range today = Inr (today - timedelta 1095, today))
   \<and> (\<forall>start_date end_date. date_range today = Inr (start_date, end_date) \<longrightarrow>
         end_date = today \<and> start_date = end_date - timedelta 1095
       \<and> datetime_diff end_date start_date = timedelta 1095)
   \<and> (\<forall>(ticker, start_date, end_date) \<in> set (requests (snd (script dl today widget))).
         end_date = today \<and> start_date = end_date - timedelta 1095
       \<and> datetime_diff end_date start_date = timedelta 1095)"
proof (intro conjI impI allI)
  assume "clock_ok today"
  then show "date_range today = Inr (today - timedelta 1095, today)"
    using date_range_clock_ok [of today] by (simp add: start_of_def)
next
  fix start_date end_date
  assume "date_range today = Inr (start_date, end_date)"
  then have "end_date = today" "start_date = today - timedelta 1095"
    by (auto simp: date_range_def datetime_sub_def Let_def split: if_splits)
  then show "end_date = today" "start_date = end_date - timedelta 1095"
    "datetime_diff end_date start_date = timedelta 1095"
    by (simp_all add: datetime_diff_def)
next
  obtain ts where q: "requests (snd (script dl today widget)) =
      map (\<lambda>t. (t, start_of today, today)) ts"
    using script_frame [of dl today widget] by blast
  show "\<forall>(ticker, start_date, end_date) \<in> set (requests (snd (script dl today widget))).
         end_date = today \<and> start_date = end_date - timedelta 1095
       \<and> datetime_diff end_date start_date = timedelta 1095"
    unfolding q by (auto simp: start_of_def datetime_diff_def)
qed

text \<open>
  An instance: on 2026-11-03 the window is computed, its two ends are 94608000000000
  microseconds (1095 days) apart, and the two requests of the pass of an untouched
  widget carry it.
\<close>

theorem date_range_1095_days_witness:
  "clock_ok demo_today
   \<and> date_range demo_today = Inr (demo_today - timedelta 1095, demo_today)
   \<and> datetime_diff demo_today (demo_today - timedelta 1095) = 94608000000000
   \<and> map snd (requests (snd (script demo_download demo_today None))) =
       [(demo_today - timedelta 1095, demo_today), (demo_today - timedelta 1095, demo_today)]"
proof -
  have ne: "selection_of None \<noteq> []" by (simp add: selection_of_def multiselect_default_def)
  note t = date_range_1095_days [of demo_today demo_download None]
  have d: "date_range demo_today = Inr (demo_today - timedelta 1095, demo_today)"
    using t demo_clock by blast
  then have "datetime_diff demo_today (demo_today - timedelta 1095) = timedelta 1095"
    using t by blast
  then have n: "datetime_diff demo_today (demo_today - timedelta 1095) = 94608000000000"
    by (simp add: timedelta_def)
  have tk: "tickers (selection_of None) = [''AAPL'', ''MSFT'']"
    by (simp add: tickers_def List.map_filter_def selection_of_def multiselect_default_def
        top10_companies_def)
  have q: "map snd (requests (snd (script demo_download demo_today None))) =
       [(demo_today - timedelta 1095, demo_today), (demo_today - timedelta 1095, demo_today)]"
    by (simp add: script_completes [OF refl ne demo_clock demo_default_answers] tk start_of_def)
  show ?thesis using demo_clock d n q by blast
qed

subsection \<open>Empty selections, empty tables and exceptions\<close>

text \<open>
  C3. When the selection is empty, the pass ends without an exception, renders no
  figure, issues no request and shows exactly one prompt, the text of line 58, which
  asks the user to choose at least one company. When the selection is not empty, the
  pass shows no prompt, whatever the provider does; it renders a chart, exactly one,
  if and only if it is not ended by an exception, and it is not ended by an exception
  when Python can compute the window and the provider answers for every selected
  label.
\<close>

theorem empty_selection_prompt:
  "(selection_of widget = [] \<longrightarrow>
       raised (script dl today widget) = None
     \<and> rendered (script dl today widget) = []
     \<and> infos (page (snd (script dl today widget))) = [info_text]
     \<and> requests (snd (script dl today widget)) = [])
   \<and> (selection_of widget \<noteq> [] \<longrightarrow>
       infos (page (snd (script dl today widget))) = []
     \<and> ((\<exists>fig. rendered (script dl today widget) = [fig])
          \<longleftrightarrow> raised (script dl today widget) = None)
     \<and> (clock_ok today \<and> list_all (answers dl (start_of today) today) (selection_of widget)
          \<longrightarrow> raised (script dl today widget) = None))"
proof (intro conjI impI)
  assume e: "selection_of widget = []"
  show "raised (script dl today widget) = None"
    by (simp add: script_empty [OF e] raised_def)
  show "rendered (script dl today widget) = []"
    by (simp add: script_empty [OF e] rendered_def)
  show "infos (page (snd (script dl today widget))) = [info_text]"
    by (simp add: script_empty [OF e])
  show "requests (snd (script dl today widget)) = []"
    by (simp add: script_empty [OF e])
next
  assume ne: "selection_of widget \<noteq> []"
  obtain ws tail where p: "page (snd (script dl today widget)) =
         Title page_title
         # Multiselect multiselect_label (dict_keys top10_companies) multiselect_default
         # map Warning ws @ tail"
    and t: "if raised (script dl today widget) = None
           then \<exists>fig. tail = [PlotlyChart fig True] \<and> fig_layout fig = chart_layout
           else tail = []"
    using script_tail [of dl today widget] ne by auto
  have i: "infos (page (snd (script dl today widget))) = infos tail"
    unfolding p by (simp add: infos_append infos_Warning)
  have c: "rendered (script dl today widget) = charts tail"
    unfolding rendered_def p by (simp add: charts_append charts_Warning)
  show "infos (page (snd (script dl today widget))) = []"
    using t i by (auto split: if_splits)
  show "(\<exists>fig. rendered (script dl today widget) = [fig])
          \<longleftrightarrow> raised (script dl today widget) = None"
    using t c by (auto split: if_splits)
next
  assume ne: "selection_of widget \<noteq> []"
    and ok: "clock_ok today \<and> list_all (answers dl (start_of today) today) (selection_of widget)"
  show "raised (script dl today widget) = None"
    using script_completes [OF refl ne, of today dl] ok by (simp add: raised_def)
qed

text \<open>
  Two instances: the pass of an emptied widget shows the prompt and no chart; the
  pass of an untouched widget shows no prompt and one chart.
\<close>

theorem empty_selection_prompt_witness:
  "selection_of (Some []) = []
   \<and> raised (script demo_download demo_today (Some [])) = None
   \<and> rendered (script demo_download demo_today (Some [])) = []
   \<and> infos (page (snd (script demo_download demo_today (Some [])))) = [info_text]
   \<and> selection_of None \<noteq> [] \<and> clock_ok demo_today
   \<and> list_all (answers demo_download (start_of demo_today) demo_today) (selection_of None)
   \<and> infos (page (snd (script demo_download demo_today None))) = []
   \<and> raised (script demo_download demo_today None) = None
   \<and> length (rendered (script demo_download demo_today None)) = 1"
proof -
  have e: "selection_of (Some []) = []" by (simp add: selection_of_def)
  have ne: "selection_of None \<noteq> []" by (simp add: selection_of_def multiselect_default_def)
  note a = empty_selection_prompt [of "Some []" demo_download demo_today]
  note b = empty_selection_prompt [of None demo_download demo_today]
  have r: "raised (script demo_download demo_today None) = None"
    using b ne demo_clock demo_default_answers by blast
  then obtain fig where "rendered (script demo_download demo_today None) = [fig]"
    using b ne by blast
  then have "length (rendered (script demo_download demo_today None)) = 1" by simp
  moreover have "infos (page (snd (script demo_download demo_today None))) = []"
    using b ne by blast
  ultimately show ?thesis
    using a e ne r demo_clock demo_default_answers by blast
qed

text \<open>
  C4. Take a pass whose selection \<open>S\<close> is a list of distinct labels, at a time for
  which Python can compute the window, with a provider that answers for every
  selected label, and a label \<open>l\<close> of \<open>S\<close> whose table is empty. The page shows the
  warning that names \<open>l\<close> (the label followed by the text of line 45) exactly once,
  the rendered figure has no trace named \<open>l\<close>, and the pass is not cut short: it ends
  without an exception, renders its figure, and has issued one request for every
  label of \<open>S\<close>, in the order of \<open>S\<close>, also for the labels after \<open>l\<close>.
\<close>

theorem empty_fetch_warns_once:
  assumes "selection_of widget = S" and "distinct S"
    and "clock_ok today" and "list_all (answers dl (start_of today) today) S"
    and "l \<in> set S" and "no_series dl (start_of today) today l"
  shows "\<exists>fig. raised (script dl today widget) = None
     \<and> rendered (script dl today widget) = [fig]
     \<and> count_list (warnings (page (snd (script dl today widget)))) (l @ warning_suffix) = 1
     \<and> filter (\<lambda>tr. sc_name tr = l) (fig_data fig) = []
     \<and> map fst (requests (snd (script dl today widget))) = tickers S
     \<and> length (tickers S) = length S"
proof -
  let ?P = "has_series dl (start_of today) today"
  let ?N = "no_series dl (start_of today) today"
  let ?fig = "\<lparr>fig_data = concat (map (traces_of dl (start_of today) today) S),
               fig_layout = chart_layout\<rparr>"
  have ne: "S \<noteq> []" using assms(5) by auto
  note run = script_completes [OF assms(1) ne assms(3,4)]
  have r: "raised (script dl today widget) = None"
    by (simp add: run raised_def)
  have c: "rendered (script dl today widget) = [?fig]"
    by (simp add: run rendered_def charts_script_page)
  have w: "warnings (page (snd (script dl today widget))) =
      map (\<lambda>n. n @ warning_suffix) (filter ?N S)"
    by (simp add: run warnings_script_page)
  have "distinct (filter ?N S)" "l \<in> set (filter ?N S)"
    using assms(2,5,6) by simp_all
  then have w1: "count_list (warnings (page (snd (script dl today widget))))
      (l @ warning_suffix) = 1"
    unfolding w by (rule warning_text_once)
  have "\<not> ?P l" using assms(6) has_no_series by blast
  then have "l \<notin> set (map sc_name (fig_data ?fig))"
    by (simp add: traces_of_names)
  then have t0: "filter (\<lambda>tr. sc_name tr = l) (fig_data ?fig) = []"
    by (auto simp: filter_empty_conv)
  have q: "map fst (requests (snd (script dl today widget))) = tickers S"
    by (simp add: run comp_def)
  show ?thesis using r c w1 t0 q tickers_length [OF assms(4)] by blast
qed

text \<open>
  An instance: with Apple, TSMC and Meta selected and no data for TSMC, TSMC is warned
  about once and the request for Meta is issued after the one for TSMC.
\<close>

theorem empty_fetch_warns_once_witness:
  "selection_of (Some demo_selection) = demo_selection \<and> distinct demo_selection
   \<and> clock_ok demo_today
   \<and> list_all (answers demo_download (start_of demo_today) demo_today) demo_selection
   \<and> ''TSMC (TSM)'' \<in> set demo_selection
   \<and> no_series demo_download (start_of demo_today) demo_today ''TSMC (TSM)''
   \<and> raised (script demo_download demo_today (Some demo_selection)) = None
   \<and> count_list (warnings (page (snd (script demo_download demo_today (Some demo_selection)))))
        (''TSMC (TSM)'' @ warning_suffix) = 1
   \<and> map fst (requests (snd (script demo_download demo_today (Some demo_selection))))
        = [''AAPL'', ''TSM'', ''META'']"
proof -
  have h1: "selection_of (Some demo_selection) = demo_selection"
    by (simp add: selection_of_def)
  have h3: "distinct demo_selection" by (simp add: demo_selection_def)
  have h5: "''TSMC (TSM)'' \<in> set demo_selection" by (simp add: demo_selection_def)
  have h6: "no_series demo_download (start_of demo_today) demo_today ''TSMC (TSM)''"
    by (simp add: no_series_def fetched_def top10_companies_def demo_download_def df_empty_def)
  have t: "tickers demo_selection = [''AAPL'', ''TSM'', ''META'']"
    by (simp add: tickers_def List.map_filter_def demo_selection_def top10_companies_def)
  show ?thesis
    using empty_fetch_warns_once [OF h1 h3 demo_clock demo_answers h5 h6]
      h1 h3 h5 h6 demo_clock demo_answers t
    by auto
qed

text \<open>
  C8. Take a pass whose selection is \<open>pre @ name # post\<close>, at a time for which Python
  can compute the window, where the provider answers for every label of \<open>pre\<close> and
  raises \<open>err\<close> for \<open>name\<close>. Nothing catches the exception: the pass ends with \<open>err\<close>,
  renders no figure and shows no prompt. The page has no warning naming \<open>name\<close>: its
  warnings are those of the labels of \<open>pre\<close> with an empty table. The labels of
  \<open>post\<close> are not processed: the request for \<open>name\<close> is the last request of the pass.
\<close>

theorem fetch_exception_fails_pass:
  assumes "selection_of widget = pre @ name # post" and "clock_ok today"
    and "list_all (answers dl (start_of today) today) pre"
    and "fetch_result dl today name = Some (Inl err)"
  shows "raised (script dl today widget) = Some err
     \<and> rendered (script dl today widget) = []
     \<and> infos (page (snd (script dl today widget))) = []
     \<and> name @ warning_suffix \<notin> set (warnings (page (snd (script dl today widget))))
     \<and> warnings (page (snd (script dl today widget))) =
         map (\<lambda>n. n @ warning_suffix) (filter (no_series dl (start_of today) today) pre)
     \<and> map fst (requests (snd (script dl today widget))) = tickers (pre @ [name])
     \<and> length (requests (snd (script dl today widget))) = length pre + 1"
proof -
  let ?N = "no_series dl (start_of today) today"
  obtain t where t: "map_of top10_companies name = Some t"
    and f: "dl t (start_of today) today = Inl err"
    using assms(4) by (auto simp: fetch_result_def)
  note run = script_fetch_raises [OF assms(1,2,3) t f]
  have r: "raised (script dl today widget) = Some err"
    by (simp add: run raised_def)
  have c: "rendered (script dl today widget) = []"
    using charts_script_page [of "\<lambda>l. l @ warning_suffix" "filter ?N pre" "[]"]
    by (simp add: run rendered_def)
  have i: "infos (page (snd (script dl today widget))) = []"
    using infos_script_page [of "\<lambda>l. l @ warning_suffix" "filter ?N pre" "[]"]
    by (simp add: run)
  have w: "warnings (page (snd (script dl today widget))) =
      map (\<lambda>n. n @ warning_suffix) (filter ?N pre)"
    using warnings_script_page [of "\<lambda>l. l @ warning_suffix" "filter ?N pre" "[]"]
    by (simp add: run)
  have "name \<notin> set (filter ?N pre)"
    using no_series_raise [OF assms(4)] by simp
  then have nw: "name @ warning_suffix \<notin> set (warnings (page (snd (script dl today widget))))"
    unfolding w by auto
  have q: "map fst (requests (snd (script dl today widget))) = tickers (pre @ [name])"
    by (simp add: run comp_def)
  have "tickers [name] = [t]" using t by (simp add: tickers_def List.map_filter_def)
  then have "length (tickers (pre @ [name])) = length pre + 1"
    using tickers_length [OF assms(3)] by (simp add: tickers_append)
  then have n: "length (requests (snd (script dl today widget))) = length pre + 1"
    using q by (metis length_map)
  show ?thesis using r c i nw w q n by blast
qed

text \<open>
  An instance: Apple, Visa and TSMC are selected and the provider raises for Visa. The
  pass ends with the provider's exception after the requests for Apple and Visa;
  TSMC, which has no data, is not warned about.
\<close>

theorem fetch_exception_fails_pass_witness:
  "selection_of (Some demo_faulty) = [''Apple (AAPL)''] @ ''Visa (V)'' # [''TSMC (TSM)'']
   \<and> clock_ok demo_today
   \<and> list_all (answers demo_download (start_of demo_today) demo_today) [''Apple (AAPL)'']
   \<and> fetch_result demo_download demo_today ''Visa (V)'' = Some (Inl (ProviderFault ''timeout''))
   \<and> raised (script demo_download demo_today (Some demo_faulty)) = Some (ProviderFault ''timeout'')
   \<and> rendered (script demo_download demo_today (Some demo_faulty)) = []
   \<and> warnings (page (snd (script demo_download demo_today (Some demo_faulty)))) = []
   \<and> map fst (requests (snd (script demo_download demo_today (Some demo_faulty))))
        = [''AAPL'', ''V'']"
proof -
  have h1: "selection_of (Some demo_faulty) = [''Apple (AAPL)''] @ ''Visa (V)'' # [''TSMC (TSM)'']"
    by (simp add: selection_of_def demo_faulty_def)
  have h3: "list_all (answers demo_download (start_of demo_today) demo_today) [''Apple (AAPL)'']"
    by (simp add: answers_def has_series_def no_series_def fetched_def
      top10_companies_def demo_download_def df_empty_def)
  have n: "filter (no_series demo_download (start_of demo_today) demo_today) [''Apple (AAPL)''] = []"
    by (simp add: no_series_def fetched_def top10_companies_def demo_download_def df_empty_def)
  have t: "tickers ([''Apple (AAPL)''] @ [''Visa (V)'']) = [''AAPL'', ''V'']"
    by (simp add: tickers_def List.map_filter_def top10_companies_def)
  show ?thesis
    using fetch_exception_fails_pass [OF h1 demo_clock h3 demo_faulty_result]
      h1 h3 demo_clock demo_faulty_result
    unfolding n t by simp
qed

subsection \<open>Two passes\<close>

text \<open>
  C5. A pass starts from nothing but the script: its result is a function of the
  provider, the time and the state of the widget. Take two passes with the same state
  of the widget, at two times for which Python can either compute both windows or
  neither, and two providers that give the same result (the same table or the same
  exception) for every selected label. Both passes end in the same way and show the
  same page; so they render the same figures, with the same number of traces, the same
  trace names in the same order and the same number of points in each trace.
\<close>

theorem same_results_same_figure:
  assumes "clock_ok today1 = clock_ok today2"
    and "list_all (\<lambda>name. fetch_result dl1 today1 name = fetch_result dl2 today2 name)
           (selection_of widget)"
  shows "raised (script dl1 today1 widget) = raised (script dl2 today2 widget)
     \<and> page (snd (script dl1 today1 widget)) = page (snd (script dl2 today2 widget))
     \<and> rendered (script dl1 today1 widget) = rendered (script dl2 today2 widget)
     \<and> map (length \<circ> fig_data) (rendered (script dl1 today1 widget))
         = map (length \<circ> fig_data) (rendered (script dl2 today2 widget))
     \<and> map (map sc_name \<circ> fig_data) (rendered (script dl1 today1 widget))
         = map (map sc_name \<circ> fig_data) (rendered (script dl2 today2 widget))
     \<and> map (map (length \<circ> sc_x) \<circ> fig_data) (rendered (script dl1 today1 widget))
         = map (map (length \<circ> sc_x) \<circ> fig_data) (rendered (script dl2 today2 widget))"
proof -
  let ?st2 = "\<lparr>companies = top10_companies,
      page = [Title page_title,
              Multiselect multiselect_label (dict_keys top10_companies) multiselect_default],
      requests = []\<rparr> :: 'a session"
  have "raised (script dl1 today1 widget) = raised (script dl2 today2 widget)
     \<and> page (snd (script dl1 today1 widget)) = page (snd (script dl2 today2 widget))"
  proof (cases "selection_of widget = []")
    case True
    then show ?thesis by (simp add: script_empty)
  next
    case False
    show ?thesis
    proof (cases "clock_ok today1")
      case no: False
      then have "script dl1 today1 widget = (Some OverflowError, ?st2)"
        "script dl2 today2 widget = (Some OverflowError, ?st2)"
        using False assms(1)
        by (simp_all add: script_def selection_of_def st_title_def st_multiselect_def
            date_range_eq)
      then show ?thesis by (simp add: raised_def)
    next
      case ok: True
      let ?l1 = "for_selected dl1 (start_of today1) today1 (selection_of widget) (Figure, ?st2)"
      let ?l2 = "for_selected dl2 (start_of today2) today2 (selection_of widget) (Figure, ?st2)"
      have "view ?l1 = view ?l2"
        using for_selected_view [of ?st2 top10_companies ?st2 dl1 "start_of today1" today1
            dl2 "start_of today2" today2 "selection_of widget" Figure] assms(2)
        by (simp add: fetch_result_def)
      moreover obtain r1 f1 st1 where l1: "?l1 = (r1, f1, st1)" by (cases ?l1)
      moreover obtain r2 f2 st2 where l2: "?l2 = (r2, f2, st2)" by (cases ?l2)
      ultimately have v: "r1 = r2" "f1 = f2" "page st1 = page st2"
        by (simp_all add: view_def)
      have s1: "script dl1 today1 widget =
          (case r1 of Some err \<Rightarrow> (Some err, st1)
           | None \<Rightarrow> (None, st_plotly_chart (update_layout f1 chart_title chart_xaxis_title
               chart_yaxis_title ''x unified'' ''plotly_white'') True st1))"
        using False ok l1
        by (simp add: script_def selection_of_def st_title_def st_multiselect_def
            date_range_eq split: option.splits)
      have s2: "script dl2 today2 widget =
          (case r2 of Some err \<Rightarrow> (Some err, st2)
           | None \<Rightarrow> (None, st_plotly_chart (update_layout f2 chart_title chart_xaxis_title
               chart_yaxis_title ''x unified'' ''plotly_white'') True st2))"
        using False ok assms(1) l2
        by (simp add: script_def selection_of_def st_title_def st_multiselect_def
            date_range_eq split: option.splits)
      show ?thesis
        unfolding s1 s2 using v
        by (simp add: raised_def st_plotly_chart_def split: option.splits)
    qed
  qed
  then show ?thesis by (simp add: rendered_def)
qed

text \<open>
  An instance: two passes an hour apart, the second with a provider that answers then
  what the first answers now, render the same figure.
\<close>

theorem same_results_same_figure_witness:
  "clock_ok demo_today = clock_ok demo_later
   \<and> list_all (\<lambda>name. fetch_result demo_download demo_today name
                     = fetch_result demo_mirror demo_later name)
        (selection_of (Some demo_selection))
   \<and> demo_today \<noteq> demo_later
   \<and> rendered (script demo_download demo_today (Some demo_selection))
       = rendered (script demo_mirror demo_later (Some demo_selection))
   \<and> map (map sc_name \<circ> fig_data) (rendered (script demo_mirror demo_later (Some demo_selection)))
       = [[''Apple (AAPL)'', ''Meta (META)'']]"
proof -
  have h1: "selection_of (Some demo_selection) = demo_selection"
    by (simp add: selection_of_def)
  have h2: "demo_selection \<noteq> []" by (simp add: demo_selection_def)
  have c: "clock_ok demo_today = clock_ok demo_later"
    using demo_clock demo_later_clock by simp
  have s: "list_all (\<lambda>name. fetch_result demo_download demo_today name
                     = fetch_result demo_mirror demo_later name)
        (selection_of (Some demo_selection))"
    by (simp add: selection_of_def demo_selection_def fetch_result_def top10_companies_def
        demo_mirror_def demo_download_def demo_later_def start_of_def)
  have d: "demo_today \<noteq> demo_later" by (simp add: demo_later_def)
  note t = same_results_same_figure [OF c s]
  have "map (map sc_name \<circ> fig_data)
      (rendered (script demo_download demo_today (Some demo_selection)))
       = [[''Apple (AAPL)'', ''Meta (META)'']]"
    by (simp add: script_completes [OF h1 h2 demo_clock demo_answers] rendered_def
        charts_script_page traces_of_names demo_has_series)
  then show ?thesis using t c s d by simp
qed

subsection \<open>The catalog and the multi-select\<close>

text \<open>
  C7. Every pass draws exactly one multi-select; its options are the labels of the
  catalog, in the catalog's order, and its default is the first two of them,
  \<open>Apple (AAPL)\<close> and \<open>Microsoft (MSFT)\<close>, which is also the selection of a pass
  whose widget the user has not touched.
\<close>

theorem multiselect_options_default:
  "multiselects (page (snd (script dl today widget))) =
     [(map fst top10_companies, take 2 (map fst top10_companies))]
   \<and> take 2 (map fst top10_companies) = [''Apple (AAPL)'', ''Microsoft (MSFT)'']
   \<and> selection_of None = [''Apple (AAPL)'', ''Microsoft (MSFT)'']"
proof -
  have d: "take 2 (map fst top10_companies) = [''Apple (AAPL)'', ''Microsoft (MSFT)'']"
    by (simp add: top10_companies_def)
  obtain ws tail where p: "page (snd (script dl today widget)) =
         [Title page_title,
          Multiselect multiselect_label (dict_keys top10_companies) multiselect_default]
         @ map Warning ws @ tail"
    and t: "tail = [Info info_text] \<or> (\<exists>fig. tail = [PlotlyChart fig True]) \<or> tail = []"
    using script_frame [of dl today widget] by (metis (no_types, lifting))
  have "multiselects tail = []" using t by auto
  then have "multiselects (page (snd (script dl today widget))) =
      [(dict_keys top10_companies, multiselect_default)]"
    by (simp add: p multiselects_append multiselects_Warning)
  then show ?thesis
    using d by (simp add: dict_keys_def multiselect_default_def selection_of_def)
qed

text \<open>
  C9. The catalog is the dictionary literal of lines 8 to 19: it has exactly 10 entries,
  its labels are pairwise different and none is the empty string, its tickers are
  pairwise different and none is the empty string, and no pass changes it: whatever
  the provider answers, whatever the clock and the widget say, and whether the pass ends
  normally or by an exception, the module variable holds the literal at the end.
\<close>

theorem catalog_constant:
  "length top10_companies = 10
   \<and> distinct (map fst top10_companies) \<and> [] \<notin> set (map fst top10_companies)
   \<and> distinct (map snd top10_companies) \<and> [] \<notin> set (map snd top10_companies)
   \<and> companies (snd (script dl today widget)) = top10_companies"
proof -
  have "length top10_companies = 10" by (simp add: top10_companies_def)
  moreover have "distinct (map fst top10_companies)" by (simp add: top10_companies_def)
  moreover have "[] \<notin> set (map fst top10_companies)" by (simp add: top10_companies_def)
  moreover have "distinct (map snd top10_companies)" by (simp add: top10_companies_def)
  moreover have "[] \<notin> set (map snd top10_companies)" by (simp add: top10_companies_def)
  moreover have "companies (snd (script dl today widget)) = top10_companies"
    using script_frame [of dl today widget] by blast
  ultimately show ?thesis by blast
qed

end
